theory Spec2Isabelle
  imports Complex_Main
begin

section \<open>Strings\<close>

text \<open>
  Python strings are modelled as \<^typ>\<open>string\<close> over ASCII text. Severities, scores and
  weights are Python floats; they are modelled as \<^typ>\<open>real\<close>, which agrees with the
  source on every comparison between the decimal constants that occur in it.
\<close>

definition isspace :: "char \<Rightarrow> bool" where
  \<comment> \<open>\<open>str.isspace\<close> and the regular expression class \<open>\s\<close> on ASCII.\<close>
  "isspace c = (c \<in> set [CHR 0x09, CHR 0x0A, CHR 0x0B, CHR 0x0C, CHR 0x0D,
                           CHR 0x1C, CHR 0x1D, CHR 0x1E, CHR 0x1F, CHR 0x20])"

definition py_strip :: "string \<Rightarrow> string" where
  "py_strip s = rev (dropWhile isspace (rev (dropWhile isspace s)))"

definition lower_char :: "char \<Rightarrow> char" where
  "lower_char c = (let n = of_char c :: nat in if 65 \<le> n \<and> n \<le> 90 then char_of (n + 32) else c)"

definition upper_char :: "char \<Rightarrow> char" where
  "upper_char c = (let n = of_char c :: nat in if 97 \<le> n \<and> n \<le> 122 then char_of (n - 32) else c)"

definition py_lower :: "string \<Rightarrow> string" where
  "py_lower s = map lower_char s"

definition py_upper :: "string \<Rightarrow> string" where
  "py_upper s = map upper_char s"

definition startswith :: "string \<Rightarrow> string \<Rightarrow> bool" where
  \<comment> \<open>\<open>s.startswith(p)\<close>\<close>
  "startswith s p = (take (length p) s = p)"

fun re_search :: "(string \<Rightarrow> bool) \<Rightarrow> string \<Rightarrow> bool" where
  \<comment> \<open>Is there a position of the string at which the matcher succeeds?\<close>
  "re_search m [] = m []"
| "re_search m (c # cs) = (m (c # cs) \<or> re_search m cs)"

definition py_in :: "string \<Rightarrow> string \<Rightarrow> bool" where
  \<comment> \<open>\<open>p in s\<close> on strings: substring test\<close>
  "py_in p s = re_search (\<lambda>t. startswith t p) s"

fun py_split :: "char \<Rightarrow> string \<Rightarrow> string list" where
  \<comment> \<open>\<open>s.split(d)\<close> for a one-character separator\<close>
  "py_split d [] = [[]]"
| "py_split d (c # cs) =
     (if c = d then [] # py_split d cs
      else (case py_split d cs of [] \<Rightarrow> [[c]] | w # ws \<Rightarrow> (c # w) # ws))"

fun str_nat :: "nat \<Rightarrow> string" where
  "str_nat n = (if n < 10 then [''0123456789'' ! n]
                else str_nat (n div 10) @ [''0123456789'' ! (n mod 10)])"

declare str_nat.simps [simp del]

definition str_int :: "int \<Rightarrow> string" where
  "str_int i = (if i < 0 then ''-'' @ str_nat (nat (- i)) else str_nat (nat i))"

definition max_default :: "real \<Rightarrow> real list \<Rightarrow> real" where
  \<comment> \<open>\<open>max(xs, default=d)\<close>\<close>
  "max_default d xs = (case xs of [] \<Rightarrow> d | x # ys \<Rightarrow> foldl max x ys)"

definition match_rm_rf :: "string \<Rightarrow> bool" where
  \<comment> \<open>the regular expression \<open>rm\s+-rf\s+/\<close> matched at the start of the string\<close>
  "match_rm_rf s =
     (startswith s ''rm'' \<and>
      (let r1 = drop 2 s; r2 = dropWhile isspace r1 in
         r2 \<noteq> r1 \<and> startswith r2 ''-rf'' \<and>
         (let r3 = drop 3 r2; r4 = dropWhile isspace r3 in
            r4 \<noteq> r3 \<and> startswith r4 ''/'')))"

definition match_dunder_import :: "string \<Rightarrow> bool" where
  \<comment> \<open>the regular expression \<open>__import__\s*\(\<close> matched at the start of the string\<close>
  "match_dunder_import s =
     (startswith s ''__import__'' \<and> startswith (dropWhile isspace (drop 10 s)) ''('')"

section \<open>Data model (models/skill.py)\<close>

record finding =
  level :: string
  name :: string
  description :: string
  severity :: real
  line_number :: "nat option"
  code_snippet :: "string option"
  mitigation :: "string option"

definition Finding :: "string \<Rightarrow> string \<Rightarrow> string \<Rightarrow> real \<Rightarrow> finding" where
  \<comment> \<open>the dataclass constructor with its defaults\<close>
  "Finding l n d s = \<lparr>level = l, name = n, description = d, severity = s,
     line_number = None, code_snippet = None, mitigation = None\<rparr>"

text \<open>
  Frontmatter metadata: \<open>_parse_frontmatter\<close> builds a dictionary from strings to
  strings, and every skill the scanner sees comes from \<open>Skill.from_path\<close>.
\<close>

type_synonym metadata = "string \<rightharpoonup> string"

record code_block =
  language :: string
  code :: string

record py_path =
  path_str :: string   \<comment> \<open>\<open>str(path)\<close>\<close>
  path_name :: string  \<comment> \<open>\<open>path.name\<close>\<close>

record skill =
  skill_path :: py_path
  skill_name :: string
  content :: string
  metadata :: metadata
  is_valid :: bool
  code_blocks :: "code_block list"

record skill_result =
  result_name :: string
  result_path :: string
  result_is_valid :: bool
  risk_score :: real
  classification :: string
  findings :: "finding list"
  top_finding :: "string option"
  error :: "string option"
  result_metadata :: metadata

definition SkillResult :: "string \<Rightarrow> string \<Rightarrow> bool \<Rightarrow> skill_result" where
  \<comment> \<open>the dataclass constructor with its defaults\<close>
  "SkillResult n p v = \<lparr>result_name = n, result_path = p, result_is_valid = v,
     risk_score = 0.0, classification = ''low'', findings = [], top_finding = None,
     error = None, result_metadata = Map.empty\<rparr>"

definition get_default :: "('k \<rightharpoonup> 'v) \<Rightarrow> 'k \<Rightarrow> 'v \<Rightarrow> 'v" where
  \<comment> \<open>\<open>d.get(k, default)\<close>\<close>
  "get_default d k v = (case d k of None \<Rightarrow> v | Some x \<Rightarrow> x)"

definition risk_level :: "skill \<Rightarrow> string" where
  "risk_level sk = get_default (metadata sk) ''risk'' ''unknown''"

definition is_offensive :: "skill \<Rightarrow> bool" where
  "is_offensive sk = (risk_level sk = ''offensive'')"

definition has_disclaimer :: "skill \<Rightarrow> bool" where
  "has_disclaimer sk = py_in ''AUTHORIZED USE ONLY'' (py_upper (content sk))"

definition source :: "skill \<Rightarrow> string" where
  "source sk = get_default (metadata sk) ''source'' ''unknown''"

text \<open>
  The two regular expressions of the loader, written out. \<open>_parse_frontmatter\<close> searches
  \<open>^---\s*\n(.*?)\n---\<close> with \<open>re.DOTALL\<close>: the text must begin with three dashes; the
  greedy \<open>\s*\<close> gives characters back until a newline follows it, and the lazy group then
  runs to the first newline followed by three dashes.
\<close>

fun find_sub :: "string \<Rightarrow> string \<Rightarrow> nat option" where
  \<comment> \<open>the index of the first occurrence of \<open>p\<close> in the string\<close>
  "find_sub p [] = (if p = [] then Some 0 else None)"
| "find_sub p (c # cs) =
     (if startswith (c # cs) p then Some 0 else map_option Suc (find_sub p cs))"

fun first_some :: "('a \<Rightarrow> 'b option) \<Rightarrow> 'a list \<Rightarrow> 'b option" where
  "first_some f [] = None"
| "first_some f (x # xs) = (case f x of Some y \<Rightarrow> Some y | None \<Rightarrow> first_some f xs)"

definition frontmatter_at :: "string \<Rightarrow> nat \<Rightarrow> string option" where
  \<comment> \<open>the group, when \<open>\s*\<close> takes \<open>k\<close> characters of the text after the opening dashes\<close>
  "frontmatter_at rest k =
     (if k < length rest \<and> rest ! k = CHR 0x0A
      then (let body = drop (Suc k) rest
            in map_option (\<lambda>j. take j body) (find_sub (CHR 0x0A # ''---'') body))
      else None)"

definition search_frontmatter :: "string \<Rightarrow> string option" where
  "search_frontmatter c =
     (if startswith c ''---''
      then (let rest = drop 3 c; n = length (takeWhile isspace rest)
            in first_some (frontmatter_at rest) (rev [0..<Suc n]))
      else None)"

definition strip_char :: "char \<Rightarrow> string \<Rightarrow> string" where
  \<comment> \<open>\<open>s.strip(ch)\<close> for one character\<close>
  "strip_char ch s = rev (dropWhile (\<lambda>c. c = ch) (rev (dropWhile (\<lambda>c. c = ch) s)))"

definition frontmatter_line :: "metadata \<Rightarrow> string \<Rightarrow> metadata" where
  "frontmatter_line md line =
     (if CHR '':'' \<in> set line
      then (let key = takeWhile (\<lambda>c. c \<noteq> CHR '':'') line;
                val = drop 1 (dropWhile (\<lambda>c. c \<noteq> CHR '':'') line);
                val = strip_char (CHR 0x27) (strip_char (CHR 0x22) (py_strip val))
            in md(py_strip key \<mapsto> val))
      else md)"

definition parse_frontmatter :: "string \<Rightarrow> metadata option" where
  "parse_frontmatter c =
     map_option (\<lambda>fm_text. foldl frontmatter_line Map.empty (py_split (CHR 0x0A) fm_text))
                (search_frontmatter c)"

text \<open>
  \<open>_extract_code_blocks\<close> iterates over the matches of \<open>```(\w*)\n(.*?)```\<close> with
  \<open>re.DOTALL\<close>, left to right and without overlap.
\<close>

definition isword :: "char \<Rightarrow> bool" where
  \<comment> \<open>the regular expression class \<open>\w\<close> on ASCII\<close>
  "isword c = (let n = of_char c :: nat in
                 (48 \<le> n \<and> n \<le> 57) \<or> (65 \<le> n \<and> n \<le> 90) \<or> n = 95 \<or> (97 \<le> n \<and> n \<le> 122))"

definition match_fence :: "string \<Rightarrow> (code_block \<times> nat) option" where
  \<comment> \<open>a match at the start of the string: the block and the length of the match\<close>
  "match_fence s =
     (if startswith s ''```''
      then (let lang = takeWhile isword (drop 3 s)
            in case dropWhile isword (drop 3 s) of
                 [] \<Rightarrow> None
               | ch # body \<Rightarrow>
                   (if ch = CHR 0x0A
                    then (case find_sub ''```'' body of
                            None \<Rightarrow> None
                          | Some j \<Rightarrow>
                              Some (\<lparr>language = (if lang = [] then ''unknown'' else lang),
                                     code = take j body\<rparr>,
                                    length lang + j + 7))
                    else None))
      else None)"

function extract_code_blocks :: "string \<Rightarrow> code_block list" where
  "extract_code_blocks [] = []"
| "extract_code_blocks (c # cs) =
     (case match_fence (c # cs) of
        Some (block, n) \<Rightarrow> block # extract_code_blocks (drop n (c # cs))
      | None \<Rightarrow> extract_code_blocks cs)"
  by pat_completeness auto

termination
proof (relation "measure length")
  fix c cs x2 block n
  assume "match_fence (c # cs) = Some x2" and "(block, n) = x2"
  then have "0 < n"
    by (auto simp: match_fence_def Let_def split: if_splits list.splits option.splits)
  then show "(drop n (c # cs), c # cs) \<in> measure length"
    by simp
qed simp_all

datatype manifest = Missing | Unreadable string | Text string

definition Skill :: "py_path \<Rightarrow> string \<Rightarrow> string \<Rightarrow> metadata \<Rightarrow> bool \<Rightarrow> skill" where
  \<comment> \<open>\<open>Skill.__init__\<close>\<close>
  "Skill p n c md v = \<lparr>skill_path = p, skill_name = n, content = c, metadata = md,
     is_valid = v, code_blocks = extract_code_blocks c\<rparr>"

text \<open>
  \<open>Skill.from_path\<close>; the first argument is what is found at \<open>SKILL.md\<close> in a directory:
  nothing, a file that cannot be read as UTF-8 text, or its text.
\<close>

definition from_path :: "(py_path \<Rightarrow> manifest) \<Rightarrow> py_path \<Rightarrow> skill" where
  "from_path fs p =
     (case fs p of
        Missing \<Rightarrow> Skill p (path_name p) [] Map.empty False
      | Unreadable e \<Rightarrow> Skill p (path_name p) [] [''error'' \<mapsto> e] False
      | Text c \<Rightarrow>
          (case parse_frontmatter c of
             None \<Rightarrow> Skill p (path_name p) c Map.empty False
           | Some md \<Rightarrow> Skill p (get_default md ''name'' (path_name p)) c md True))"

section \<open>Level 1: static analysis (levels/l1\_static.py)\<close>

record pattern_rule =
  p_name :: string
  p_regex :: "string \<Rightarrow> (nat \<times> nat) list"
    \<comment> \<open>\<open>regex.finditer\<close> of the compiled pattern: the spans of its matches, in order\<close>
  p_severity :: real
  p_description :: string
  p_mitigation :: string

record allow_entry =
  a_patterns :: "string list"
  a_context :: "string option"
  a_requires_disclaimer :: bool

record static_analyzer =
  patterns_critical :: "pattern_rule list"
  patterns_high :: "pattern_rule list"
  patterns_medium :: "pattern_rule list"
  patterns_low :: "pattern_rule list"
  allowlist :: "allow_entry list"

definition missing_field :: "string \<Rightarrow> finding" where
  "missing_field field =
     (Finding ''L1'' (''missing_'' @ field) (''Missing required metadata field: '' @ field) 0.30)
       \<lparr>mitigation := Some (''Add '' @ [CHR 0x27] @ field @ [CHR 0x27] @ '' to frontmatter'')\<rparr>"

definition str_opt :: "string option \<Rightarrow> string" where
  \<comment> \<open>formatting an optional string: \<open>None\<close> prints as \<open>None\<close>\<close>
  "str_opt v = (case v of None \<Rightarrow> ''None'' | Some s \<Rightarrow> s)"

definition check_metadata :: "skill \<Rightarrow> finding list" where
  "check_metadata sk =
     (let md = metadata sk in
      concat (map (\<lambda>field. if md field = None then [missing_field field] else [])
                  [''name'', ''description''])
      @ (if md ''name'' \<noteq> Some (path_name (skill_path sk))
         then [(Finding ''L1'' ''name_mismatch''
                  (''Name '' @ [CHR 0x27] @ str_opt (md ''name'') @ [CHR 0x27]
                   @ '' doesn't match folder '' @ [CHR 0x27] @ path_name (skill_path sk) @ [CHR 0x27])
                  0.20)
                \<lparr>mitigation := Some ''Ensure 'name' in frontmatter matches folder name''\<rparr>]
         else [])
      @ (case md ''risk'' of
           None \<Rightarrow>
             [(Finding ''L1'' ''missing_risk'' ''Missing 'risk' classification label'' 0.35)
                \<lparr>mitigation := Some ''Add 'risk' field with value: none, safe, critical, or offensive''\<rparr>]
         | Some r \<Rightarrow>
             (if r \<notin> set [''none'', ''safe'', ''critical'', ''offensive'']
              then [(Finding ''L1'' ''invalid_risk'' (''Invalid risk level: '' @ r) 0.40)
                      \<lparr>mitigation := Some ''Use valid risk level: none, safe, critical, or offensive''\<rparr>]
              else []))
      @ (if md ''source'' = None
         then [(Finding ''L1'' ''missing_source'' ''Missing source attribution'' 0.15)
                 \<lparr>mitigation := Some ''Add 'source' field with URL or 'self' if original''\<rparr>]
         else []))"

definition is_allowed :: "static_analyzer \<Rightarrow> string \<Rightarrow> skill \<Rightarrow> bool" where
  "is_allowed an pattern_name sk =
     list_ex (\<lambda>entry.
        pattern_name \<in> set (a_patterns entry) \<and>
        (if a_context entry = Some ''offensive'' \<and> is_offensive sk
         then has_disclaimer sk \<or> \<not> a_requires_disclaimer entry
         else a_context entry = Some ''defensive'' \<and> risk_level sk \<in> set [''safe'', ''critical'']))
       (allowlist an)"

definition pattern_finding :: "skill \<Rightarrow> pattern_rule \<Rightarrow> nat \<times> nat \<Rightarrow> finding" where
  "pattern_finding sk pat m =
     (let c = content sk;
          line = count_list (take (fst m) c) (CHR 0x0A) + 1;
          start = fst m - 50;
          end = min (length c) (snd m + 50);
          snippet = py_strip (drop start (take end c))
      in \<lparr>level = ''L1'', name = p_name pat, description = p_description pat,
           severity = p_severity pat, line_number = Some line,
           code_snippet = Some (take 200 snippet), mitigation = Some (p_mitigation pat)\<rparr>)"

definition detect_patterns :: "static_analyzer \<Rightarrow> skill \<Rightarrow> finding list" where
  "detect_patterns an sk =
     concat (map (\<lambda>pat.
        concat (map (\<lambda>m. if is_allowed an (p_name pat) sk then [] else [pattern_finding sk pat m])
                    (p_regex pat (content sk))))
       (patterns_critical an @ patterns_high an @ patterns_medium an @ patterns_low an))"

definition analyze_block :: "code_block \<Rightarrow> finding list" where
  "analyze_block block =
     (if language block \<in> set [''bash'', ''sh'', ''shell'', ''zsh''] \<and> re_search match_rm_rf (code block)
      then [(Finding ''L1'' ''destructive_shell''
               ''Potentially destructive shell command (rm -rf /)'' 0.95)
              \<lparr>code_snippet := Some (take 100 (code block)),
               mitigation := Some ''Remove or add safety guards''\<rparr>]
      else [])
     @ (if language block \<in> set [''python'', ''py''] \<and> re_search match_dunder_import (code block)
        then [(Finding ''L1'' ''dynamic_import'' ''Dynamic import pattern detected'' 0.50)
                \<lparr>code_snippet := Some (take 100 (code block)),
                 mitigation := Some ''Use explicit imports when possible''\<rparr>]
        else [])"

definition analyze_code_blocks :: "skill \<Rightarrow> finding list" where
  "analyze_code_blocks sk = concat (map analyze_block (code_blocks sk))"

definition sort_findings :: "finding list \<Rightarrow> finding list" where
  \<comment> \<open>\<open>findings.sort(key=lambda f: f.severity, reverse=True)\<close>: stable, highest first\<close>
  "sort_findings fs = sort_key (\<lambda>f. - severity f) fs"

definition missing_disclaimer :: finding where
  "missing_disclaimer =
     (Finding ''L1'' ''missing_disclaimer''
        ''Offensive skill missing 'AUTHORIZED USE ONLY' disclaimer'' 0.90)
       \<lparr>mitigation := Some ''Add required security disclaimer at the top of SKILL.md''\<rparr>"

definition l1_collect :: "static_analyzer \<Rightarrow> skill \<Rightarrow> finding list" where
  \<comment> \<open>the list built by \<open>StaticAnalyzer.analyze\<close> before it is sorted\<close>
  "l1_collect an sk =
     check_metadata sk @ detect_patterns an sk @ analyze_code_blocks sk
     @ (if is_offensive sk \<and> \<not> has_disclaimer sk then [missing_disclaimer] else [])"

text \<open>
  \<open>StaticAnalyzer.analyze(self, skill)\<close> in state-passing form: it takes the analyzer
  object and the skill object and returns them with the findings, so that what the call
  leaves behind in either object is part of its result.
\<close>

definition static_analyze :: "static_analyzer \<Rightarrow> skill \<Rightarrow> finding list \<times> static_analyzer \<times> skill" where
  "static_analyze an sk = (sort_findings (l1_collect an sk), an, sk)"

section \<open>Level 2: semantic analysis (levels/l2\_semantic.py)\<close>

record gemini_config =
  api_url :: string
  api_key :: string
  gemini_model :: string
  gemini_timeout :: int

text \<open>
  The analysis dictionary that \<open>_parse_openai_response\<close> returns, with the fields typed as
  the prompt asks the service for them; an absent key is \<open>None\<close>.
\<close>

record l2_item =
  item_type :: "string option"
  item_description :: "string option"
  item_severity :: "real option"
  item_evidence :: "string option"
  item_recommendation :: "string option"

record analysis =
  an_error :: "string option"
  an_findings :: "l2_item list option"
  an_risk_score :: "real option"
  an_summary :: "string option"

record semantic_analyzer =
  l2_config :: gemini_config
  l2_request :: "skill \<Rightarrow> string + analysis"
    \<comment> \<open>the request of \<open>_analyze_async\<close> with its retries, up to the parsed analysis:
        \<open>Inl\<close> carries the text of the exception that \<open>asyncio.run\<close> raised\<close>

definition opt_default :: "'a option \<Rightarrow> 'a \<Rightarrow> 'a" where
  "opt_default v d = (case v of None \<Rightarrow> d | Some x \<Rightarrow> x)"

definition item_finding :: "l2_item \<Rightarrow> finding" where
  "item_finding item =
     \<lparr>level = ''L2'', name = opt_default (item_type item) ''unknown'',
      description = opt_default (item_description item) [],
      severity = opt_default (item_severity item) 0.5,
      line_number = None,
      code_snippet = Some (take 200 (opt_default (item_evidence item) [])),
      mitigation = Some (opt_default (item_recommendation item) [])\<rparr>"

definition convert_to_findings :: "analysis \<Rightarrow> finding list" where
  "convert_to_findings a =
     (case an_error a of
        Some e \<Rightarrow> [Finding ''L2'' ''parse_error'' e 0.10]
      | None \<Rightarrow>
          map item_finding (opt_default (an_findings a) [])
          @ (let risk_score = opt_default (an_risk_score a) 0 in
             if risk_score \<ge> 0.6
             then [Finding ''L2'' ''high_risk_assessment''
                     (opt_default (an_summary a) ''High risk skill detected'') risk_score]
             else []))"

definition semantic_analyze :: "semantic_analyzer \<Rightarrow> skill \<Rightarrow> finding list" where
  "semantic_analyze an sk =
     (if api_url (l2_config an) = [] \<or> api_key (l2_config an) = []
      then [(Finding ''L2'' ''gemini_not_configured''
               ''Gemini API not configured - skipping semantic analysis'' 0.0)
              \<lparr>mitigation := Some ''Set GEMINI_API_URL and GEMINI_API_KEY in .env''\<rparr>]
      else (case l2_request an sk of
              Inr a \<Rightarrow> convert_to_findings a
            | Inl e \<Rightarrow>
                [(Finding ''L2'' ''analysis_error'' (''Semantic analysis failed: '' @ e) 0.10)
                   \<lparr>mitigation := Some ''Check Gemini API configuration''\<rparr>]))"

section \<open>Level 3: dynamic analysis (levels/l3\_dynamic.py)\<close>

record sandbox_config =
  enabled :: bool
  sandbox_image :: string
  memory_limit :: string
  cpu_limit :: string
  timeout :: int
  network_disabled :: bool

record completed_process =
  returncode :: int
  stdout :: string
  stderr :: string

datatype run_outcome =
    Completed completed_process   \<comment> \<open>\<open>subprocess.run\<close> returned\<close>
  | TimeoutExpired                \<comment> \<open>it raised \<open>subprocess.TimeoutExpired\<close>\<close>
  | Raised string                 \<comment> \<open>it raised another exception, with this text\<close>

record dynamic_analyzer =
  l3_config :: sandbox_config
  docker_available :: bool
  sandbox_run :: "code_block \<Rightarrow> nat \<Rightarrow> run_outcome"
    \<comment> \<open>the sandbox provider: what running the docker command for this block gives\<close>

definition is_testable :: "code_block \<Rightarrow> bool" where
  "is_testable block =
     (let lang = py_lower (language block); c = code block in
      lang \<in> set [''python'', ''py'', ''bash'', ''sh'', ''shell''] \<and>
      (let lines = filter (\<lambda>l. py_strip l \<noteq> [] \<and> \<not> startswith (py_strip l) ''#'')
                          (py_split (CHR 0x0A) (py_strip c))
       in length lines > 0 \<and> length (py_strip c) > 10))"

definition extract_testable_code :: "skill \<Rightarrow> code_block list" where
  "extract_testable_code sk =
     take 5 (map (\<lambda>block. \<lparr>language = py_lower (language block), code = code block\<rparr>)
                 (filter is_testable (code_blocks sk)))"

definition suspicious_patterns :: "(string \<times> string \<times> real) list" where
  "suspicious_patterns =
     [(''permission denied'', ''permission_denied'', 0.40),
      (''network unreachable'', ''network_attempt'', 0.70),
      (''connection refused'', ''network_attempt'', 0.60),
      (''curl:'', ''external_request'', 0.65),
      (''wget:'', ''external_request'', 0.65),
      (''socket.error'', ''socket_usage'', 0.55),
      (''subprocess'', ''subprocess_call'', 0.50)]"

definition analyze_execution_result :: "completed_process \<Rightarrow> string \<Rightarrow> nat \<Rightarrow> finding list" where
  "analyze_execution_result result skill_nm block_index =
     (let err = py_lower (stderr result) in
      concat (map (\<lambda>(pattern, nm, sev).
                if py_in pattern err
                then [(Finding ''L3'' nm
                         (''Suspicious activity detected in block '' @ str_nat block_index
                          @ '': '' @ pattern) sev)
                        \<lparr>code_snippet := Some (take 200 err)\<rparr>]
                else [])
              suspicious_patterns)
      @ (if returncode result \<noteq> 0 \<and> returncode result \<noteq> 1
         then [Finding ''L3'' ''abnormal_exit''
                 (''Code block '' @ str_nat block_index @ '' exited with code ''
                  @ str_int (returncode result)) 0.30]
         else []))"

definition run_in_sandbox :: "dynamic_analyzer \<Rightarrow> code_block \<Rightarrow> string \<Rightarrow> nat \<Rightarrow> finding list" where
  "run_in_sandbox an block skill_nm block_index =
     (case sandbox_run an block block_index of
        Completed result \<Rightarrow> analyze_execution_result result skill_nm block_index
      | TimeoutExpired \<Rightarrow>
          [(Finding ''L3'' ''execution_timeout''
              (''Code block '' @ str_nat block_index @ '' exceeded timeout (''
               @ str_int (timeout (l3_config an)) @ ''s)'') 0.60)
             \<lparr>mitigation := Some ''Review code for infinite loops or excessive computation''\<rparr>]
      | Raised e \<Rightarrow>
          [Finding ''L3'' ''sandbox_error'' (''Sandbox execution error: '' @ e) 0.10])"

text \<open>
  The loop over the testable blocks. Beside the findings it returns the indices of the
  blocks it handed to the sandbox, in the order of the calls.
\<close>

fun run_blocks :: "dynamic_analyzer \<Rightarrow> string \<Rightarrow> nat \<Rightarrow> code_block list \<Rightarrow> finding list \<times> nat list" where
  "run_blocks an skill_nm i [] = ([], [])"
| "run_blocks an skill_nm i (block # rest) =
     (let block_findings = run_in_sandbox an block skill_nm i;
          (fs, runs) = run_blocks an skill_nm (Suc i) rest
      in (block_findings @ fs, i # runs))"

definition dynamic_analyze :: "dynamic_analyzer \<Rightarrow> skill \<Rightarrow> finding list \<times> nat list" where
  "dynamic_analyze an sk =
     (if \<not> enabled (l3_config an)
      then ([Finding ''L3'' ''sandbox_disabled'' ''Sandbox execution disabled'' 0.0], [])
      else if \<not> docker_available an
      then ([(Finding ''L3'' ''docker_unavailable''
                ''Docker not available - skipping dynamic analysis'' 0.05)
               \<lparr>mitigation := Some ''Install Docker to enable sandbox execution''\<rparr>], [])
      else (let blocks = extract_testable_code sk in
            if blocks = []
            then ([Finding ''L3'' ''no_testable_code'' ''No testable code blocks found'' 0.0], [])
            else run_blocks an (skill_name sk) 0 blocks))"

section \<open>Level 4: trust verification (levels/l4\_trust.py)\<close>

text \<open>
  The trusted-authors registry is read from a JSON file and typed
  \<open>Dict[str, Dict[str, Any]]\<close>: the values of an author's entry are arbitrary JSON
  scalars. Comparing one that is not a number with a float raises \<open>TypeError\<close>.
\<close>

datatype pyval = PNone | PBool bool | PNum real | PStr string

datatype py_exn = TypeError string

definition truthy :: "pyval \<Rightarrow> bool" where
  "truthy v = (case v of PNone \<Rightarrow> False | PBool b \<Rightarrow> b | PNum r \<Rightarrow> r \<noteq> 0 | PStr s \<Rightarrow> s \<noteq> [])"

definition type_name :: "pyval \<Rightarrow> string" where
  "type_name v = (case v of PNone \<Rightarrow> ''NoneType'' | PBool b \<Rightarrow> ''bool''
                  | PNum r \<Rightarrow> ''float'' | PStr s \<Rightarrow> ''str'')"

definition quoted :: "string \<Rightarrow> string" where
  "quoted s = [CHR 0x27] @ s @ [CHR 0x27]"

definition py_ge :: "pyval \<Rightarrow> real \<Rightarrow> py_exn + bool" where
  \<comment> \<open>\<open>v >= c\<close> for a float constant \<open>c\<close>\<close>
  "py_ge v c =
     (case v of
        PNum r \<Rightarrow> Inr (r \<ge> c)
      | PBool b \<Rightarrow> Inr ((if b then 1 else 0) \<ge> c)
      | _ \<Rightarrow> Inl (TypeError (quoted ''>='' @ '' not supported between instances of ''
                             @ quoted (type_name v) @ '' and '' @ quoted ''float'')))"

record trust_verifier =
  require_signature :: bool
  trusted_authors :: "string \<rightharpoonup> (string \<rightharpoonup> pyval)"
  sig_exists :: "py_path \<Rightarrow> bool"   \<comment> \<open>is there a file \<open>SKILL.md.sig\<close> in the directory?\<close>
  str_float :: "real \<Rightarrow> string"      \<comment> \<open>how Python prints a float\<close>

definition str_pyval :: "trust_verifier \<Rightarrow> pyval \<Rightarrow> string" where
  "str_pyval tv v = (case v of PNone \<Rightarrow> ''None'' | PBool b \<Rightarrow> (if b then ''True'' else ''False'')
                     | PNum r \<Rightarrow> str_float tv r | PStr s \<Rightarrow> s)"

definition trusted_domains :: "string list" where
  "trusted_domains = [''github.com/anthropics'', ''github.com/google'',
                      ''github.com/microsoft'', ''github.com/openai'']"

definition verify_source :: "skill \<Rightarrow> finding list" where
  "verify_source sk =
     (let src = source sk in
      if src = ''unknown'' \<or> src = []
      then [(Finding ''L4'' ''unknown_source'' ''Skill has no source attribution'' 0.40)
              \<lparr>mitigation := Some ''Add 'source' field with URL or 'self' if original work''\<rparr>]
      else if src = ''self''
      then [Finding ''L4'' ''self_attributed'' ''Skill is self-attributed (original work)'' 0.10]
      else if startswith src ''http''
      then (if list_ex (\<lambda>domain. py_in domain src) trusted_domains
            then [Finding ''L4'' ''trusted_source''
                    (''Source from trusted repository: '' @ take 50 src) 0.0]
            else [Finding ''L4'' ''external_source''
                    (''Source from external repository: '' @ take 50 src) 0.20])
      else [])"

definition verify_signature :: "trust_verifier \<Rightarrow> skill \<Rightarrow> finding list" where
  "verify_signature tv sk =
     (if \<not> sig_exists tv (skill_path sk)
      then [(Finding ''L4'' ''missing_signature'' ''No signature file found (SKILL.md.sig)'' 0.30)
              \<lparr>mitigation := Some ''Sign skill with: gpg --sign --armor SKILL.md''\<rparr>]
      else [Finding ''L4'' ''signature_found''
              ''Signature file exists (verification not implemented)'' 0.05])"

definition verify_author :: "trust_verifier \<Rightarrow> skill \<Rightarrow> py_exn + finding list" where
  "verify_author tv sk =
     (let author = get_default (metadata sk) ''author'' ''unknown'';
          trust_level = get_default (metadata sk) ''trust_level'' ''community''
      in case trusted_authors tv author of
           Some author_info \<Rightarrow>
             (let reputation = get_default author_info ''reputation'' (PNum 0.5);
                  verified = get_default author_info ''verified'' (PBool False)
              in case (if truthy verified then py_ge reputation 0.8 else Inr False) of
                   Inl e \<Rightarrow> Inl e
                 | Inr True \<Rightarrow>
                     Inr [Finding ''L4'' ''trusted_author''
                            (''Author '' @ quoted author
                             @ '' is verified (reputation: '' @ str_pyval tv reputation @ '')'') 0.0]
                 | Inr False \<Rightarrow>
                     (case py_ge reputation 0.5 of
                        Inl e \<Rightarrow> Inl e
                      | Inr True \<Rightarrow>
                          Inr [Finding ''L4'' ''known_author''
                                 (''Author '' @ quoted author
                                  @ '' is known (reputation: '' @ str_pyval tv reputation @ '')'') 0.10]
                      | Inr False \<Rightarrow>
                          Inr [Finding ''L4'' ''low_reputation''
                                 (''Author '' @ quoted author
                                  @ '' has low reputation ('' @ str_pyval tv reputation @ '')'') 0.40]))
         | None \<Rightarrow>
             (if trust_level = ''official''
              then Inr [Finding ''L4'' ''official_skill'' ''Skill marked as official'' 0.0]
              else if trust_level = ''verified''
              then Inr [Finding ''L4'' ''verified_skill'' ''Skill marked as verified'' 0.05]
              else Inr [Finding ''L4'' ''community_skill''
                          ''Community-contributed skill (not individually verified)'' 0.15]))"

text \<open>
  \<open>TrustVerifier.verify\<close>. After the three checks the source hashes the content and appends
  a line to the audit log inside a \<open>try\<close> that swallows every failure; these two steps
  change no finding and are not part of the model.
\<close>

definition verify :: "trust_verifier \<Rightarrow> skill \<Rightarrow> py_exn + finding list" where
  "verify tv sk =
     (let fs = verify_source sk @ (if require_signature tv then verify_signature tv sk else [])
      in case verify_author tv sk of
           Inl e \<Rightarrow> Inl e
         | Inr author_findings \<Rightarrow> Inr (fs @ author_findings))"

section \<open>The orchestrator (scanner.py)\<close>

record weights =
  pattern_severity :: real
  permission_scope :: real
  source_trust :: real
  community_reports :: real

record thresholds_config =
  cfg_weights :: weights
  cfg_permissions :: "string \<rightharpoonup> real"    \<comment> \<open>\<open>permissions[p]["score"]\<close>\<close>
  cfg_source_trust :: "string \<rightharpoonup> real"   \<comment> \<open>\<open>source_trust[t]["score"]\<close>\<close>
  critical_min :: real                      \<comment> \<open>\<open>thresholds["critical"]["min"]\<close>\<close>
  high_min :: real
  medium_min :: real

record scanner =
  thresholds :: thresholds_config
  l1_analyzer :: static_analyzer
  l2_analyzer :: semantic_analyzer
  l3_analyzer :: dynamic_analyzer
  l4_verifier :: trust_verifier

definition risk_scores :: "string \<rightharpoonup> real" where
  "risk_scores = [''none'' \<mapsto> 0.0, ''safe'' \<mapsto> 0.2, ''critical'' \<mapsto> 0.6,
                  ''offensive'' \<mapsto> 0.9, ''unknown'' \<mapsto> 0.5]"

text \<open>
  \<open>_get_permission_score\<close> reads \<open>skill.metadata.get("permissions", [])\<close>, the frontmatter
  value itself, which is a string; its \<open>for perm in permissions\<close> therefore runs over the
  characters of that string, each a one-character string.
\<close>

definition get_permission_score :: "thresholds_config \<Rightarrow> skill \<Rightarrow> real" where
  "get_permission_score cfg sk =
     (let permissions = get_default (metadata sk) ''permissions'' [] in
      if permissions = []
      then get_default risk_scores (get_default (metadata sk) ''risk'' ''unknown'') 0.5
      else foldl (\<lambda>max_score perm.
                    case cfg_permissions cfg [perm] of
                      Some score \<Rightarrow> max max_score score
                    | None \<Rightarrow> max_score)
                 0.0 permissions)"

definition get_source_trust_score :: "thresholds_config \<Rightarrow> skill \<Rightarrow> real" where
  "get_source_trust_score cfg sk =
     (let trust_level = get_default (metadata sk) ''trust_level'' ''community'' in
      case cfg_source_trust cfg trust_level of Some score \<Rightarrow> score | None \<Rightarrow> 0.5)"

definition calculate_risk_score :: "thresholds_config \<Rightarrow> skill \<Rightarrow> finding list \<Rightarrow> real" where
  "calculate_risk_score cfg sk fs =
     (let w = cfg_weights cfg;
          pattern_score = max_default 0.0 (map severity fs);
          permission_score = get_permission_score cfg sk;
          source_score = get_source_trust_score cfg sk;
          community_score = 0.0;
          risk = pattern_severity w * pattern_score + permission_scope w * permission_score
                 + source_trust w * source_score + community_reports w * community_score
      in min 1.0 risk)"

definition classify_risk :: "thresholds_config \<Rightarrow> real \<Rightarrow> string" where
  "classify_risk cfg score =
     (if score \<ge> critical_min cfg then ''critical''
      else if score \<ge> high_min cfg then ''high''
      else if score \<ge> medium_min cfg then ''medium''
      else ''low'')"

definition should_run_l2 :: "skill \<Rightarrow> finding list \<Rightarrow> bool" where
  "should_run_l2 sk fs = (metadata sk ''risk'' = Some ''offensive'' \<or> list_ex (\<lambda>f. severity f \<ge> 0.3) fs)"

definition should_run_l3 :: "finding list \<Rightarrow> bool" where
  "should_run_l3 fs = (max_default 0 (map severity fs) \<ge> 0.6)"

text \<open>
  The scan keeps a running list of findings. The model keeps beside it the list of the
  analysis levels it has called, in order, so that which levels ran is part of the result.
\<close>

datatype level_id = L1 | L2 | L3 | L4

record scan_state =
  calls :: "level_id list"
  running :: "finding list"

definition step_l1 :: "scanner \<Rightarrow> skill \<Rightarrow> string \<Rightarrow> scan_state \<Rightarrow> scan_state" where
  "step_l1 sc sk lvl st =
     (if lvl \<in> set [''all'', ''L1'', ''l1'']
      then \<lparr>calls = calls st @ [L1],
            running = running st @ fst (static_analyze (l1_analyzer sc) sk)\<rparr>
      else st)"

definition step_l2 :: "scanner \<Rightarrow> skill \<Rightarrow> string \<Rightarrow> scan_state \<Rightarrow> scan_state" where
  "step_l2 sc sk lvl st =
     (if lvl \<in> set [''all'', ''L2'', ''l2''] \<and> should_run_l2 sk (running st)
      then \<lparr>calls = calls st @ [L2],
            running = running st @ semantic_analyze (l2_analyzer sc) sk\<rparr>
      else st)"

definition step_l3 :: "scanner \<Rightarrow> skill \<Rightarrow> string \<Rightarrow> scan_state \<Rightarrow> scan_state" where
  "step_l3 sc sk lvl st =
     (if lvl \<in> set [''all'', ''L3'', ''l3''] \<and> should_run_l3 (running st)
      then \<lparr>calls = calls st @ [L3],
            running = running st @ fst (dynamic_analyze (l3_analyzer sc) sk)\<rparr>
      else st)"

definition step_l4 :: "scanner \<Rightarrow> skill \<Rightarrow> string \<Rightarrow> scan_state \<Rightarrow> level_id list \<times> (py_exn + finding list)" where
  "step_l4 sc sk lvl st =
     (if lvl \<in> set [''all'', ''L4'', ''l4'']
      then (calls st @ [L4],
            case verify (l4_verifier sc) sk of
              Inl e \<Rightarrow> Inl e
            | Inr l4_findings \<Rightarrow> Inr (running st @ l4_findings))
      else (calls st, Inr (running st)))"

definition scan_skill :: "scanner \<Rightarrow> (py_path \<Rightarrow> manifest) \<Rightarrow> py_path \<Rightarrow> string \<Rightarrow> level_id list \<times> (py_exn + skill_result)" where
  \<comment> \<open>the levels called, and the result returned or the exception that left the call\<close>
  "scan_skill sc fs skill_pth lvl =
     (let sk = from_path fs skill_pth in
      if \<not> is_valid sk
      then ([], Inr ((SkillResult (path_name skill_pth) (path_str skill_pth) False)
                       \<lparr>error := Some ''Invalid skill: Missing or malformed SKILL.md''\<rparr>))
      else
        (let st1 = step_l1 sc sk lvl \<lparr>calls = [], running = []\<rparr>;
             st2 = step_l2 sc sk lvl st1;
             st3 = step_l3 sc sk lvl st2
         in case step_l4 sc sk lvl st3 of
              (cs, Inl e) \<Rightarrow> (cs, Inl e)
            | (cs, Inr fs) \<Rightarrow>
                (let score = calculate_risk_score (thresholds sc) sk fs;
                     cls = classify_risk (thresholds sc) score
                 in (cs, Inr \<lparr>result_name = skill_name sk, result_path = path_str skill_pth,
                              result_is_valid = True, risk_score = score, classification = cls,
                              findings = fs,
                              top_finding = (case fs of [] \<Rightarrow> None | f # _ \<Rightarrow> Some (description f)),
                              error = None, result_metadata = metadata sk\<rparr>))))"

section \<open>The report (models/report.py)\<close>

record scan_report =
  total_skills :: nat
  passed_count :: nat
  flagged_count :: nat
  blocked_count :: nat
  results :: "skill_result list"
  high_risk_skills :: "skill_result list"

definition from_results :: "skill_result list \<Rightarrow> scan_report" where
  \<comment> \<open>\<open>ScanReport.from_results\<close>, without the generated id, the timestamp and the summary\<close>
  "from_results rs =
     \<lparr>total_skills = length rs,
      passed_count = length (filter (\<lambda>r. classification r = ''low'') rs),
      flagged_count = length (filter (\<lambda>r. classification r \<in> set [''medium'', ''high'']) rs),
      blocked_count = length (filter (\<lambda>r. classification r = ''critical'') rs),
      results = rs,
      high_risk_skills = sort_key (\<lambda>r. - risk_score r) (filter (\<lambda>r. risk_score r \<ge> 0.6) rs)\<rparr>"

section \<open>Example skills and configuration\<close>

definition nl :: string where
  "nl = [CHR 0x0A]"

definition demo_manifest :: string where
  "demo_manifest = ''---'' @ nl @ ''name: demo'' @ nl @ ''description: A demo skill'' @ nl
     @ ''risk: safe'' @ nl @ ''---'' @ nl @ ''# Demo'' @ nl"

definition tool_manifest :: string where
  "tool_manifest = ''---'' @ nl @ ''name: tool'' @ nl @ ''description: A tool'' @ nl
     @ ''risk: safe'' @ nl @ ''source: self'' @ nl @ ''author: mallory'' @ nl @ ''---'' @ nl"

definition net_manifest :: string where
  "net_manifest = ''---'' @ nl @ ''name: net'' @ nl @ ''description: Fetches pages'' @ nl
     @ ''risk: safe'' @ nl @ ''source: self'' @ nl @ ''permissions: network'' @ nl @ ''---'' @ nl"

definition quiet_manifest :: string where
  "quiet_manifest = ''---'' @ nl @ ''name: quiet'' @ nl @ ''description: Does nothing'' @ nl
     @ ''risk: none'' @ nl @ ''source: self'' @ nl @ ''---'' @ nl"

definition wiki_manifest :: string where
  "wiki_manifest = ''---'' @ nl @ ''name: wiki'' @ nl @ ''description: House rules'' @ nl
     @ ''risk: none'' @ nl @ ''source: internal-wiki'' @ nl @ ''---'' @ nl"

definition exploit_manifest :: string where
  "exploit_manifest = ''---'' @ nl @ ''name: exploit'' @ nl @ ''description: Payload builder'' @ nl
     @ ''risk: offensive'' @ nl @ ''source: self'' @ nl @ ''---'' @ nl @ ''# Exploit'' @ nl"

definition messy_manifest :: string where
  "messy_manifest = ''---'' @ nl @ ''description: Unnamed'' @ nl @ ''risk: offensive'' @ nl
     @ ''---'' @ nl @ ''Run it.'' @ nl"

definition runner_manifest :: string where
  "runner_manifest = ''---'' @ nl @ ''name: runner'' @ nl @ ''risk: critical'' @ nl @ ''---'' @ nl
     @ ''```python'' @ nl @ ''import os'' @ nl @ ''print(os.getcwd())'' @ nl @ ''```'' @ nl
     @ ''```sh'' @ nl @ ''sleep 3600'' @ nl @ ''echo done'' @ nl @ ''```'' @ nl
     @ ''```bash'' @ nl @ ''cat /etc/shadow'' @ nl @ ''```'' @ nl"

definition skill_dir :: "string \<Rightarrow> py_path" where
  "skill_dir n = \<lparr>path_str = ''skills/'' @ n, path_name = n\<rparr>"

definition example_fs :: "py_path \<Rightarrow> manifest" where
  "example_fs p =
     (if path_name p = ''demo'' then Text demo_manifest
      else if path_name p = ''tool'' then Text tool_manifest
      else if path_name p = ''net'' then Text net_manifest
      else if path_name p = ''quiet'' then Text quiet_manifest
      else if path_name p = ''wiki'' then Text wiki_manifest
      else if path_name p = ''exploit'' then Text exploit_manifest
      else if path_name p = ''messy'' then Text messy_manifest
      else if path_name p = ''runner'' then Text runner_manifest
      else if path_name p = ''notes'' then Text ''no frontmatter here''
      else Missing)"

definition example_thresholds :: thresholds_config where
  "example_thresholds =
     \<lparr>cfg_weights = \<lparr>pattern_severity = 0.40, permission_scope = 0.30,
                      source_trust = 0.20, community_reports = 0.10\<rparr>,
      cfg_permissions = [''network'' \<mapsto> 0.8, ''filesystem'' \<mapsto> 0.6],
      cfg_source_trust = [''official'' \<mapsto> 0.0, ''verified'' \<mapsto> 0.2, ''community'' \<mapsto> 0.5],
      critical_min = 0.8, high_min = 0.6, medium_min = 0.3\<rparr>"


definition example_l1 :: static_analyzer where
  "example_l1 = \<lparr>patterns_critical = [], patterns_high = [], patterns_medium = [],
                  patterns_low = [], allowlist = []\<rparr>"

definition overrated :: analysis where
  \<comment> \<open>a response of the service with severities outside the range it was asked for\<close>
  "overrated =
     \<lparr>an_error = None,
      an_findings = Some [\<lparr>item_type = Some ''obfuscation'', item_description = Some ''Encoded payload'',
                            item_severity = Some 7.5, item_evidence = Some ''base64'',
                            item_recommendation = Some ''Decode and review''\<rparr>,
                          \<lparr>item_type = Some ''excessive_agency'', item_description = Some ''Broad scope'',
                            item_severity = Some (- 1), item_evidence = None,
                            item_recommendation = None\<rparr>],
      an_risk_score = Some 0.2, an_summary = Some ''Mixed''\<rparr>"

definition example_l2 :: semantic_analyzer where
  "example_l2 =
     \<lparr>l2_config = \<lparr>api_url = ''https://api.example.test/v1'', api_key = ''key'',
                    gemini_model = ''gemini-2.0-flash'', gemini_timeout = 30\<rparr>,
      l2_request = (\<lambda>sk. Inr overrated)\<rparr>"

definition example_l3 :: dynamic_analyzer where
  "example_l3 =
     \<lparr>l3_config = \<lparr>enabled = True, sandbox_image = ''python:3.11-slim'', memory_limit = ''256m'',
                    cpu_limit = ''0.5'', timeout = 30, network_disabled = True\<rparr>,
      docker_available = True,
      sandbox_run = (\<lambda>block i.
         if i = 0 then Raised ''[Errno 13] Permission denied: 'docker' and more''
         else if i = 1 then TimeoutExpired
         else Completed \<lparr>returncode = 2, stdout = [],
                          stderr = ''cat: /etc/shadow: Permission denied''\<rparr>)\<rparr>"

definition example_l4 :: trust_verifier where
  "example_l4 =
     \<lparr>require_signature = False,
      trusted_authors = [''mallory'' \<mapsto> [''reputation'' \<mapsto> PStr ''high'', ''verified'' \<mapsto> PBool True]],
      sig_exists = (\<lambda>p. False),
      str_float = (\<lambda>r. ''0.5'')\<rparr>"

definition example_scanner :: scanner where
  "example_scanner =
     \<lparr>thresholds = example_thresholds, l1_analyzer = example_l1, l2_analyzer = example_l2,
      l3_analyzer = example_l3, l4_verifier = example_l4\<rparr>"

section \<open>Auxiliary facts\<close>



lemma verify_source_severity:
  "f \<in> set (verify_source sk) \<Longrightarrow> 0 \<le> severity f \<and> severity f \<le> 1"
  by (auto simp: verify_source_def Let_def Finding_def split: if_splits)

lemma verify_signature_severity:
  "f \<in> set (verify_signature tv sk) \<Longrightarrow> 0 \<le> severity f \<and> severity f \<le> 1"
  by (auto simp: verify_signature_def Finding_def split: if_splits)

lemma verify_author_severity:
  "verify_author tv sk = Inr fs \<Longrightarrow> f \<in> set fs \<Longrightarrow> 0 \<le> severity f \<and> severity f \<le> 1"
  by (auto simp: verify_author_def Let_def Finding_def
           split: if_splits option.splits sum.splits bool.splits)

lemma verify_severity:
  assumes "verify tv sk = Inr fs" and "f \<in> set fs"
  shows "0 \<le> severity f \<and> severity f \<le> 1"
proof -
  from assms(1) obtain afs where a: "verify_author tv sk = Inr afs"
    and fs: "fs = verify_source sk @ (if require_signature tv then verify_signature tv sk else []) @ afs"
    by (auto simp: verify_def Let_def split: sum.splits)
  from assms(2) fs consider "f \<in> set (verify_source sk)" | "f \<in> set (verify_signature tv sk)"
    | "f \<in> set afs"
    by (auto split: if_splits)
  then show ?thesis
    using verify_source_severity verify_signature_severity verify_author_severity [OF a]
    by cases blast+
qed

lemma analyze_execution_result_severity:
  "f \<in> set (analyze_execution_result r nm i) \<Longrightarrow> 0 \<le> severity f \<and> severity f \<le> 1"
  by (auto simp: analyze_execution_result_def Let_def suspicious_patterns_def Finding_def
           split: if_splits)

lemma run_in_sandbox_severity:
  "f \<in> set (run_in_sandbox an b nm i) \<Longrightarrow> 0 \<le> severity f \<and> severity f \<le> 1"
  using analyze_execution_result_severity
  by (auto simp: run_in_sandbox_def Finding_def split: run_outcome.splits)

lemma run_blocks_severity:
  "f \<in> set (fst (run_blocks an nm i bs)) \<Longrightarrow> 0 \<le> severity f \<and> severity f \<le> 1"
proof (induction bs arbitrary: i)
  case Nil
  then show ?case by simp
next
  case (Cons b bs)
  then show ?case
    using run_in_sandbox_severity [of f an b nm i]
    by (auto simp: Let_def split_def)
qed

lemma dynamic_analyze_severity:
  "f \<in> set (fst (dynamic_analyze an sk)) \<Longrightarrow> 0 \<le> severity f \<and> severity f \<le> 1"
  using run_blocks_severity [of f an "skill_name sk" 0 "extract_testable_code sk"]
  by (auto simp: dynamic_analyze_def Let_def Finding_def split: if_splits)

lemma scan_skill_propagates:
  assumes "is_valid (from_path fs p)" and "verify (l4_verifier sc) (from_path fs p) = Inl e"
  shows "snd (scan_skill sc fs p ''all'') = Inl e"
  using assms by (simp add: scan_skill_def Let_def step_l4_def)

lemma semantic_analyze_catches:
  assumes "api_url (l2_config an) \<noteq> []" and "api_key (l2_config an) \<noteq> []"
    and "l2_request an sk = Inl e"
  shows "map name (semantic_analyze an sk) = [''analysis_error'']
         \<and> map severity (semantic_analyze an sk) = [0.10]"
  using assms by (simp add: semantic_analyze_def Finding_def)





lemma static_analyze_severity:
  assumes "f \<in> set (fst (static_analyze an sk))"
  shows "(0 \<le> severity f \<and> severity f \<le> 1)
         \<or> (\<exists>pat \<in> set (patterns_critical an @ patterns_high an @ patterns_medium an
                              @ patterns_low an). severity f = p_severity pat)"
proof -
  from assms have "f \<in> set (l1_collect an sk)"
    by (simp add: static_analyze_def sort_findings_def)
  then consider "f \<in> set (check_metadata sk)" | "f \<in> set (detect_patterns an sk)"
    | "f \<in> set (analyze_code_blocks sk)" | "f = missing_disclaimer"
    by (auto simp: l1_collect_def split: if_splits)
  then show ?thesis
  proof cases
    case 1
    then show ?thesis
      by (auto simp: check_metadata_def Let_def Finding_def missing_field_def
               split: if_splits option.splits)
  next
    case 2
    then show ?thesis
      by (auto simp: detect_patterns_def pattern_finding_def Let_def split: if_splits)
  next
    case 3
    then show ?thesis
      by (auto simp: analyze_code_blocks_def analyze_block_def Finding_def split: if_splits)
  next
    case 4
    then show ?thesis
      by (simp add: missing_disclaimer_def Finding_def)
  qed
qed

lemma risk_scores_lookup:
  "get_default risk_scores r 0.5
     = (if r = ''unknown'' then 0.5 else if r = ''offensive'' then 0.9
        else if r = ''critical'' then 0.6 else if r = ''safe'' then 0.2
        else if r = ''none'' then 0.0 else 0.5)"
  by (simp add: get_default_def risk_scores_def)

lemma get_permission_score_no_permissions:
  assumes "metadata sk ''permissions'' = None \<or> metadata sk ''permissions'' = Some []"
  shows "get_permission_score cfg sk
           = get_default risk_scores (get_default (metadata sk) ''risk'' ''unknown'') 0.5"
proof -
  from assms have "get_default (metadata sk) ''permissions'' [] = []"
    by (auto simp: get_default_def)
  then show ?thesis
    by (simp add: get_permission_score_def Let_def)
qed

lemma get_permission_score_long_names:
  assumes "\<forall>c. cfg_permissions cfg [c] = None" and "metadata sk ''permissions'' = Some (c # cs)"
  shows "get_permission_score cfg sk = 0"
proof -
  have "foldl (\<lambda>max_score perm.
                 case cfg_permissions cfg [perm] of
                   Some score \<Rightarrow> max max_score score
                 | None \<Rightarrow> max_score) m ps = m" for m :: real and ps
    using assms(1) by (induction ps arbitrary: m) simp_all
  with assms(2) show ?thesis
    by (simp add: get_permission_score_def get_default_def Let_def)
qed





lemma from_path_invalid:
  assumes "fs p = Missing \<or> (\<exists>c. fs p = Text c \<and> parse_frontmatter c = None)"
  shows "\<not> is_valid (from_path fs p)"
  using assms by (auto simp: from_path_def Skill_def)

section \<open>Escalation\<close>



section \<open>Order of the findings\<close>

text \<open>
  C2. The findings of a result are not ordered by descending severity across levels, and
  \<open>top_finding\<close> need not describe the most severe finding: only the findings of L1 are
  sorted, those of the later levels are appended, and \<open>top_finding\<close> is the description of
  the first. For the skill \<open>demo\<close> (a valid manifest with no \<open>source\<close> field) the severities
  are 0.15 (L1), 0.40 (L4), 0.15 (L4), and \<open>top_finding\<close> is the description of the first,
  not of the finding of severity 0.40.
\<close>

theorem findings_not_sorted_across_levels:
  "map_sum id (\<lambda>r. (map level (findings r), map severity (findings r), top_finding r))
       (snd (scan_skill example_scanner example_fs (skill_dir ''demo'') ''all''))
     = Inr ([''L1'', ''L4'', ''L4''], [0.15, 0.40, 0.15], Some ''Missing source attribution'')"
  by code_simp

section \<open>Range of the severities\<close>

text \<open>
  C3. A finding of L2 carries the severity that the response of the service gives, as it
  is: for the response \<open>overrated\<close> the findings have severities 7.5 and -1. (The findings
  of L3 and L4 and of the fixed checks of L1 do lie between 0 and 1: lemmas
  \<open>dynamic_analyze_severity\<close>, \<open>verify_severity\<close>, \<open>static_analyze_severity\<close>.)
\<close>

theorem semantic_severity_out_of_range:
  "map severity (semantic_analyze example_l2 (from_path example_fs (skill_dir ''exploit'')))
     = [7.5, - 1]"
  by code_simp

section \<open>Exceptions inside a level\<close>

text \<open>
  C4. An exception raised inside L4 leaves \<open>scan_skill\<close>: no finding is made of it and no
  result is returned. The registry of \<open>example_l4\<close> gives the author \<open>mallory\<close> the
  reputation \<open>"high"\<close>, a string; for the skill \<open>tool\<close>, whose author is \<open>mallory\<close>, the
  comparison \<open>reputation >= 0.8\<close> raises \<open>TypeError\<close>, and the scan ends with it after L1
  and L4 have been called.
\<close>

theorem trust_level_exception_aborts_scan:
  "fst (scan_skill example_scanner example_fs (skill_dir ''tool'') ''all'') = [L1, L4]
   \<and> map_sum id result_is_valid (snd (scan_skill example_scanner example_fs (skill_dir ''tool'') ''all''))
       = Inl (TypeError (quoted ''>='' @ '' not supported between instances of ''
                         @ quoted ''str'' @ '' and '' @ quoted ''float''))"
  by code_simp

section \<open>The isolation executor\<close>





section \<open>The permission score\<close>

text \<open>
  C6. With permissions declared, the score is not the maximum of the configured scores of
  the declared permissions: \<open>_get_permission_score\<close> iterates over the characters of the
  frontmatter string. The skill \<open>net\<close> declares \<open>permissions: network\<close>, the configuration
  scores \<open>network\<close> at 0.8, and the permission score is 0.0.
\<close>

theorem permission_score_reads_characters:
  "metadata (from_path example_fs (skill_dir ''net'')) ''permissions'' = Some ''network''
   \<and> cfg_permissions example_thresholds ''network'' = Some 0.8
   \<and> get_permission_score example_thresholds (from_path example_fs (skill_dir ''net'')) = 0.0"
  by code_simp

section \<open>The risk score\<close>




section \<open>The pattern engine\<close>



section \<open>Invalid skills\<close>

text \<open>
  C9. When the manifest is missing, or its frontmatter cannot be parsed, \<open>scan_skill\<close> calls
  no level and returns a result that is not valid, has no findings, risk score 0.0 and
  classification \<open>low\<close>; \<open>ScanReport.from_results\<close> counts it in \<open>passed_count\<close>, as it
  counts any other result classified \<open>low\<close>.
\<close>

theorem invalid_skill_counts_as_passed:
  assumes "fs p = Missing \<or> (\<exists>c. fs p = Text c \<and> parse_frontmatter c = None)"
  shows "\<exists>r. scan_skill sc fs p lvl = ([], Inr r)
            \<and> \<not> result_is_valid r \<and> findings r = [] \<and> risk_score r = 0.0
            \<and> classification r = ''low''
            \<and> passed_count (from_results (rs @ [r])) = Suc (passed_count (from_results rs))
            \<and> flagged_count (from_results (rs @ [r])) = flagged_count (from_results rs)
            \<and> blocked_count (from_results (rs @ [r])) = blocked_count (from_results rs)
            \<and> (\<forall>r'. classification r' = ''low'' \<longrightarrow>
                   passed_count (from_results (rs @ [r'])) = passed_count (from_results (rs @ [r])))"
proof -
  let ?r = "(SkillResult (path_name p) (path_str p) False)
              \<lparr>error := Some ''Invalid skill: Missing or malformed SKILL.md''\<rparr>"
  have "scan_skill sc fs p lvl = ([], Inr ?r)"
    using from_path_invalid [of fs p] assms by (simp add: scan_skill_def Let_def)
  moreover have "\<not> result_is_valid ?r" "findings ?r = []" "risk_score ?r = 0.0"
    "classification ?r = ''low''"
    by (simp_all add: SkillResult_def)
  ultimately show ?thesis
    by (intro exI [of _ ?r]) (simp add: from_results_def)
qed

theorem invalid_skill_counts_as_passed_witness:
  "example_fs (skill_dir ''notes'') = Text ''no frontmatter here''
   \<and> parse_frontmatter ''no frontmatter here'' = None
   \<and> example_fs (skill_dir ''absent'') = Missing
   \<and> (\<exists>r. scan_skill example_scanner example_fs (skill_dir ''notes'') ''all'' = ([], Inr r)
          \<and> classification r = ''low''
          \<and> passed_count (from_results [r]) = 1)
   \<and> (\<exists>r. scan_skill example_scanner example_fs (skill_dir ''absent'') ''all'' = ([], Inr r)
          \<and> classification r = ''low''
          \<and> passed_count (from_results [r]) = 1)"
proof -
  have a: "example_fs (skill_dir ''notes'') = Text ''no frontmatter here''"
    by (simp add: example_fs_def skill_dir_def)
  have b: "parse_frontmatter ''no frontmatter here'' = None"
    by (simp add: parse_frontmatter_def search_frontmatter_def startswith_def)
  have c: "example_fs (skill_dir ''absent'') = Missing"
    by (simp add: example_fs_def skill_dir_def)
  have e: "passed_count (from_results []) = 0"
    by (simp add: from_results_def)
  from invalid_skill_counts_as_passed
         [of example_fs "skill_dir ''notes''" example_scanner "''all''" "[]"] a b
  have n: "\<exists>r. scan_skill example_scanner example_fs (skill_dir ''notes'') ''all'' = ([], Inr r)
          \<and> classification r = ''low'' \<and> passed_count (from_results [r]) = 1"
    using e by auto
  from invalid_skill_counts_as_passed
         [of example_fs "skill_dir ''absent''" example_scanner "''all''" "[]"] c
  have m: "\<exists>r. scan_skill example_scanner example_fs (skill_dir ''absent'') ''all'' = ([], Inr r)
          \<and> classification r = ''low'' \<and> passed_count (from_results [r]) = 1"
    using e by auto
  from a b c n m show ?thesis by blast
qed

section \<open>The trust ledger's source check\<close>

text \<open>
  C10. When the declared source is a non-empty string other than \<open>unknown\<close> and \<open>self\<close>
  that does not start with \<open>http\<close>, \<open>_verify_source\<close> returns no finding: its chain of
  \<open>if\<close>/\<open>elif\<close> has no final \<open>else\<close>.
\<close>

theorem verify_source_other_strings:
  assumes "source sk \<noteq> []" and "source sk \<noteq> ''unknown''" and "source sk \<noteq> ''self''"
    and "\<not> startswith (source sk) ''http''"
  shows "verify_source sk = []"
  using assms by (simp add: verify_source_def Let_def)

theorem verify_source_other_strings_witness:
  "source (from_path example_fs (skill_dir ''wiki'')) = ''internal-wiki''
   \<and> \<not> startswith ''internal-wiki'' ''http''
   \<and> verify_source (from_path example_fs (skill_dir ''wiki'')) = []"
proof -
  have s: "source (from_path example_fs (skill_dir ''wiki'')) = ''internal-wiki''"
    by code_simp
  have h: "\<not> startswith ''internal-wiki'' ''http''"
    by (simp add: startswith_def)
  from verify_source_other_strings [of "from_path example_fs (skill_dir ''wiki'')"] s h
  show ?thesis by simp
qed

end
